theory Spec2Isabelle
  imports Main
begin

section \<open>Data model (backend/models/models.go)\<close>

text \<open>
  The persisted structs, one record each. Field names carry the struct's initial, since
  several structs share the names \<open>ID\<close>, \<open>UserID\<close>, \<open>CreatedAt\<close>. The associations
  \<open>Wishlist.Items\<close> and \<open>Item.Purchases\<close> are not columns: they are filled by
  \<open>Preload\<close> and are modelled there. The \<open>User\<close> table is read and written only by the
  registration and login controllers, which are not part of the sources, and is left out.
\<close>

record Wishlist =
  w_ID :: string
  w_UserID :: string
  w_Title :: string
  w_Description :: string
  w_CreatedAt :: string

record Item =
  i_ID :: string
  i_WishlistID :: string
  i_Name :: string
  i_Description :: string
  i_Purchased :: bool
  i_CreatedAt :: string

record Purchase =
  p_ID :: string
  p_ItemID :: string
  p_UserID :: string
  p_PurchasedAt :: string

text \<open>
  \<open>time.Time\<close> is an instant counted from Go's zero time; \<open>0\<close> is the zero value, which
  is what an \<open>ExpiresAt\<close> that was never set holds.
\<close>

record Share =
  s_ID :: string
  s_WishlistID :: string
  s_Token :: string
  s_CreatedAt :: nat
  s_ExpiresAt :: nat

text \<open>The database behind \<open>models.DB\<close>: one list of rows per table, in insertion order.\<close>

record DB =
  wishlists :: "Wishlist list"
  items :: "Item list"
  purchases :: "Purchase list"
  shares :: "Share list"

definition empty_DB :: DB where
  "empty_DB = \<lparr>wishlists = [], items = [], purchases = [], shares = []\<rparr>"

section \<open>Storage calls\<close>

text \<open>
  A storage call answers with a row, with \<open>gorm.ErrRecordNotFound\<close>, or with some other
  error (connection lost, statement refused). Whether a call is hit by such an other error
  is not decided by the program: every call takes a flag \<open>fails\<close>, and a handler receives
  the set \<open>outage\<close> of the numbers of its storage calls (counted in source order from 1)
  that fail this way.
\<close>

datatype db_error = ErrRecordNotFound | ErrOther

definition First_wishlist :: "bool \<Rightarrow> DB \<Rightarrow> string \<Rightarrow> db_error + Wishlist" where
  "First_wishlist fails d wid =
     (if fails then Inl ErrOther
      else case find (\<lambda>w. w_ID w = wid) (wishlists d) of
             None \<Rightarrow> Inl ErrRecordNotFound
           | Some w \<Rightarrow> Inr w)"

definition First_item :: "bool \<Rightarrow> DB \<Rightarrow> string \<Rightarrow> db_error + Item" where
  "First_item fails d iid =
     (if fails then Inl ErrOther
      else case find (\<lambda>i. i_ID i = iid) (items d) of
             None \<Rightarrow> Inl ErrRecordNotFound
           | Some i \<Rightarrow> Inr i)"

definition First_purchase :: "bool \<Rightarrow> DB \<Rightarrow> string \<Rightarrow> string \<Rightarrow> db_error + Purchase" where
  "First_purchase fails d iid uid =
     (if fails then Inl ErrOther
      else case find (\<lambda>p. p_ItemID p = iid \<and> p_UserID p = uid) (purchases d) of
             None \<Rightarrow> Inl ErrRecordNotFound
           | Some p \<Rightarrow> Inr p)"

definition First_share :: "bool \<Rightarrow> DB \<Rightarrow> string \<Rightarrow> db_error + Share" where
  "First_share fails d tok =
     (if fails then Inl ErrOther
      else case find (\<lambda>s. s_Token s = tok) (shares d) of
             None \<Rightarrow> Inl ErrRecordNotFound
           | Some s \<Rightarrow> Inr s)"

text \<open>\<open>Preload("Items")\<close> and \<open>Preload("Items.Purchases")\<close>: the rows that refer to the parent.\<close>

definition Preload_Items :: "DB \<Rightarrow> Wishlist \<Rightarrow> Item list" where
  "Preload_Items d w = filter (\<lambda>i. i_WishlistID i = w_ID w) (items d)"

definition Preload_Purchases :: "DB \<Rightarrow> Item \<Rightarrow> Purchase list" where
  "Preload_Purchases d i = filter (\<lambda>p. p_ItemID p = i_ID i) (purchases d)"

definition Preload_Items_Purchases :: "DB \<Rightarrow> Wishlist \<Rightarrow> (Item \<times> Purchase list) list" where
  "Preload_Items_Purchases d w = map (\<lambda>i. (i, Preload_Purchases d i)) (Preload_Items d w)"

text \<open>
  \<open>Create\<close> inserts one row. The insert is refused when the storage fails, and when the
  row breaks a constraint declared in the struct tags: \<open>primaryKey\<close> on every \<open>ID\<close>,
  \<open>unique\<close> on \<open>Share.Token\<close>. A refused insert leaves the table as it was.

  \<open>Wishlist.CreatedAt\<close> and \<open>Item.CreatedAt\<close> are strings tagged \<open>autoCreateTime\<close>. For a
  row whose field holds the zero value the storage layer sets the field to its clock
  value, a time, which a string field does not take: the insert fails. (\<open>PurchasedAt\<close>
  carries the same tag, but PurchaseItem assigns it a formatted time before the insert.)
\<close>

definition Create_wishlist :: "bool \<Rightarrow> Wishlist \<Rightarrow> DB \<Rightarrow> db_error + DB" where
  "Create_wishlist fails w d =
     (if fails \<or> w_CreatedAt w = [] \<or> w_ID w \<in> set (map w_ID (wishlists d))
      then Inl ErrOther
      else Inr (d\<lparr>wishlists := wishlists d @ [w]\<rparr>))"

definition Create_item :: "bool \<Rightarrow> Item \<Rightarrow> DB \<Rightarrow> db_error + DB" where
  "Create_item fails i d =
     (if fails \<or> i_CreatedAt i = [] \<or> i_ID i \<in> set (map i_ID (items d))
      then Inl ErrOther
      else Inr (d\<lparr>items := items d @ [i]\<rparr>))"

definition Create_purchase :: "bool \<Rightarrow> Purchase \<Rightarrow> DB \<Rightarrow> db_error + DB" where
  "Create_purchase fails p d =
     (if fails \<or> p_ID p \<in> set (map p_ID (purchases d)) then Inl ErrOther
      else Inr (d\<lparr>purchases := purchases d @ [p]\<rparr>))"

definition Create_share :: "bool \<Rightarrow> Share \<Rightarrow> DB \<Rightarrow> db_error + DB" where
  "Create_share fails s d =
     (if fails \<or> s_ID s \<in> set (map s_ID (shares d))
         \<or> s_Token s \<in> set (map s_Token (shares d)) then Inl ErrOther
      else Inr (d\<lparr>shares := shares d @ [s]\<rparr>))"

text \<open>
  \<open>DB.Model(&item).Update("purchased", true)\<close>: sets the column on the rows whose primary
  key is that of \<open>item\<close>.
\<close>

definition Update_purchased :: "bool \<Rightarrow> Item \<Rightarrow> DB \<Rightarrow> db_error + DB" where
  "Update_purchased fails item d =
     (if fails then Inl ErrOther
      else Inr (d\<lparr>items := map (\<lambda>i. if i_ID i = i_ID item then i\<lparr>i_Purchased := True\<rparr> else i)
                                 (items d)\<rparr>))"

section \<open>Requests and responses\<close>

text \<open>
  The part of \<open>gin.Context\<close> the controllers read: the path parameters (\<open>c.Param\<close>, the
  empty string when the parameter is absent) and the keys set by middleware (\<open>c.Get\<close>).
\<close>

record Context =
  Params :: "string \<rightharpoonup> string"
  Keys :: "string \<rightharpoonup> string"

definition Param :: "Context \<Rightarrow> string \<Rightarrow> string" where
  "Param c k = (case Params c k of None \<Rightarrow> [] | Some v \<Rightarrow> v)"

definition Get :: "Context \<Rightarrow> string \<Rightarrow> string option" where
  "Get c k = Keys c k"

text \<open>
  The JSON values the controllers answer with. \<open>JObject\<close> lists the fields of an object
  (a \<open>gin.H\<close>, or a struct encoded by its \<open>json\<close> tags); \<open>JErrText\<close> stands for the text of
  \<open>err.Error()\<close>, which the binding library produces.
\<close>

datatype json =
    JString string
  | JBool bool
  | JNull
  | JArray "json list"
  | JObject "(string \<times> json) list"
  | JErrText

datatype response = JSON nat json

fun status :: "response \<Rightarrow> nat" where
  "status (JSON code b) = code"

fun body :: "response \<Rightarrow> json" where
  "body (JSON code b) = b"

abbreviation StatusOK :: nat where "StatusOK \<equiv> 200"
abbreviation StatusBadRequest :: nat where "StatusBadRequest \<equiv> 400"
abbreviation StatusUnauthorized :: nat where "StatusUnauthorized \<equiv> 401"
abbreviation StatusForbidden :: nat where "StatusForbidden \<equiv> 403"
abbreviation StatusNotFound :: nat where "StatusNotFound \<equiv> 404"
abbreviation StatusInternalServerError :: nat where "StatusInternalServerError \<equiv> 500"

text \<open>\<open>gin.H{"error": msg}\<close>\<close>

definition H_error :: "string \<Rightarrow> json" where
  "H_error msg = JObject [(''error'', JString msg)]"

section \<open>Wishlist controller\<close>

text \<open>
  \<open>ShouldBindJSON\<close>: the request body is given as the decoded input, or \<open>None\<close> when it is
  not JSON of the expected shape; a field tagged \<open>binding:"required"\<close> must not hold the
  zero value. \<open>None\<close> as the result is the binding error.
\<close>

record CreateWishlistInput =
  cw_Title :: string
  cw_Description :: string

record AddItemInput =
  ai_Name :: string
  ai_Description :: string

definition ShouldBindJSON_CreateWishlistInput ::
  "CreateWishlistInput option \<Rightarrow> CreateWishlistInput option" where
  "ShouldBindJSON_CreateWishlistInput b =
     (case b of None \<Rightarrow> None
      | Some input \<Rightarrow> if cw_Title input = [] then None else Some input)"

definition ShouldBindJSON_AddItemInput :: "AddItemInput option \<Rightarrow> AddItemInput option" where
  "ShouldBindJSON_AddItemInput b =
     (case b of None \<Rightarrow> None
      | Some input \<Rightarrow> if ai_Name input = [] then None else Some input)"

text \<open>The structs that are sent as they are, encoded by their \<open>json\<close> tags.\<close>

definition json_Item :: "Item \<Rightarrow> json" where
  "json_Item i = JObject
     [(''id'', JString (i_ID i)), (''wishlist_id'', JString (i_WishlistID i)),
      (''name'', JString (i_Name i)), (''description'', JString (i_Description i)),
      (''purchased'', JBool (i_Purchased i)), (''created_at'', JString (i_CreatedAt i))]"

text \<open>A wishlist that was just built in the controller has a nil \<open>Items\<close> slice.\<close>

definition json_Wishlist :: "Wishlist \<Rightarrow> json" where
  "json_Wishlist w = JObject
     [(''id'', JString (w_ID w)), (''user_id'', JString (w_UserID w)),
      (''title'', JString (w_Title w)), (''description'', JString (w_Description w)),
      (''created_at'', JString (w_CreatedAt w)), (''items'', JNull)]"

text \<open>
  CreateWishlist. \<open>CreatedAt\<close> is not assigned and keeps the zero value, so the insert
  (storage call 1) is refused for every request that gets that far.
\<close>

definition CreateWishlist ::
  "nat set \<Rightarrow> string \<Rightarrow> CreateWishlistInput option \<Rightarrow> Context \<Rightarrow> DB \<Rightarrow> response \<times> DB"
  where
  "CreateWishlist outage uuid b c d =
     (case ShouldBindJSON_CreateWishlistInput b of
        None \<Rightarrow> (JSON StatusBadRequest (JObject [(''error'', JErrText)]), d)
      | Some input \<Rightarrow>
          (case Get c ''userID'' of
             None \<Rightarrow> (JSON StatusUnauthorized (H_error ''User not authenticated''), d)
           | Some userID \<Rightarrow>
               (let wishlist = \<lparr>w_ID = uuid, w_UserID = userID, w_Title = cw_Title input,
                                 w_Description = cw_Description input, w_CreatedAt = []\<rparr>
                in case Create_wishlist (1 \<in> outage) wishlist d of
                     Inl err \<Rightarrow>
                       (JSON StatusInternalServerError (H_error ''Error creating wishlist''), d)
                   | Inr d1 \<Rightarrow>
                       (JSON StatusOK (JObject [(''wishlist'', json_Wishlist wishlist)]), d1))))"

text \<open>
  GetWishlist. The response array (\<open>items\<close> in the source, \<open>items_out\<close> here) is made
  with the length of \<open>wishlist.Items\<close> and filled by index. Storage call 1 is the lookup with its preload.
\<close>

definition owner_item :: "Item \<Rightarrow> json" where
  "owner_item item = JObject
     [(''id'', JString (i_ID item)), (''name'', JString (i_Name item)),
      (''description'', JString (i_Description item)),
      (''purchased'', JBool (i_Purchased item)),
      (''created_at'', JString (i_CreatedAt item))]"

fun owner_items_loop :: "nat \<Rightarrow> Item list \<Rightarrow> json list \<Rightarrow> json list" where
  "owner_items_loop i [] items_out = items_out"
| "owner_items_loop i (item # rest) items_out =
     owner_items_loop (Suc i) rest (items_out[i := owner_item item])"

definition GetWishlist :: "nat set \<Rightarrow> Context \<Rightarrow> DB \<Rightarrow> response" where
  "GetWishlist outage c d =
     (let wishlistID = Param c ''id'' in
      case Get c ''userID'' of
        None \<Rightarrow> JSON StatusUnauthorized (H_error ''User not authenticated'')
      | Some userID \<Rightarrow>
          (case First_wishlist (1 \<in> outage) d wishlistID of
             Inl ErrRecordNotFound \<Rightarrow> JSON StatusNotFound (H_error ''Wishlist not found'')
           | Inl ErrOther \<Rightarrow>
               JSON StatusInternalServerError (H_error ''Error fetching wishlist'')
           | Inr wishlist \<Rightarrow>
               if w_UserID wishlist \<noteq> userID
               then JSON StatusForbidden (H_error ''Access denied'')
               else
                 (let wishlist_Items = Preload_Items d wishlist;
                      items_out = owner_items_loop 0 wishlist_Items
                                    (replicate (length wishlist_Items) JNull)
                  in JSON StatusOK (JObject
                       [(''id'', JString (w_ID wishlist)),
                        (''title'', JString (w_Title wishlist)),
                        (''description'', JString (w_Description wishlist)),
                        (''created_at'', JString (w_CreatedAt wishlist)),
                        (''items'', JArray items_out)]))))"

text \<open>
  ShareWishlist. \<open>shareToken\<close> and \<open>uuid\<close> are the two values of \<open>uuid.New().String()\<close>, in
  the order they are drawn; \<open>now\<close> is the \<open>autoCreateTime\<close> value. \<open>ExpiresAt\<close> is not
  assigned and keeps the zero value. Storage calls: 1 the wishlist lookup, 2 the insert.
\<close>

definition ShareWishlist ::
  "nat set \<Rightarrow> string \<Rightarrow> string \<Rightarrow> nat \<Rightarrow> Context \<Rightarrow> DB \<Rightarrow> response \<times> DB" where
  "ShareWishlist outage shareToken uuid now c d =
     (let wishlistID = Param c ''id'' in
      case Get c ''userID'' of
        None \<Rightarrow> (JSON StatusUnauthorized (H_error ''User not authenticated''), d)
      | Some userID \<Rightarrow>
          (case First_wishlist (1 \<in> outage) d wishlistID of
             Inl ErrRecordNotFound \<Rightarrow> (JSON StatusNotFound (H_error ''Wishlist not found''), d)
           | Inl ErrOther \<Rightarrow>
               (JSON StatusInternalServerError (H_error ''Error fetching wishlist''), d)
           | Inr wishlist \<Rightarrow>
               if w_UserID wishlist \<noteq> userID
               then (JSON StatusForbidden
                       (H_error ''Only the creator can share the wishlist''), d)
               else
                 (let share = \<lparr>s_ID = uuid, s_WishlistID = wishlistID, s_Token = shareToken,
                                s_CreatedAt = now, s_ExpiresAt = 0\<rparr>
                  in case Create_share (2 \<in> outage) share d of
                       Inl err \<Rightarrow>
                         (JSON StatusInternalServerError
                            (H_error ''Error generating shareable link''), d)
                     | Inr d1 \<Rightarrow>
                         (JSON StatusOK (JObject
                            [(''shareable_link'',
                              JString (''http://yourfrontend.com/shared/'' @ shareToken))]),
                          d1))))"

section \<open>Item controller\<close>

text \<open>
  AddItem. The body is bound before the caller's identity is looked at. \<open>Purchased\<close> is
  left at its zero value, the column's default, and \<open>CreatedAt\<close> at its zero value, so
  the insert is refused for every request that gets that far. Storage calls: 1 the
  wishlist lookup, 2 the insert.
\<close>

definition AddItem ::
  "nat set \<Rightarrow> string \<Rightarrow> AddItemInput option \<Rightarrow> Context \<Rightarrow> DB \<Rightarrow> response \<times> DB" where
  "AddItem outage uuid b c d =
     (let wishlistID = Param c ''id'' in
      case ShouldBindJSON_AddItemInput b of
        None \<Rightarrow> (JSON StatusBadRequest (JObject [(''error'', JErrText)]), d)
      | Some input \<Rightarrow>
          (case Get c ''userID'' of
             None \<Rightarrow> (JSON StatusUnauthorized (H_error ''User not authenticated''), d)
           | Some userID \<Rightarrow>
               (case First_wishlist (1 \<in> outage) d wishlistID of
                  Inl ErrRecordNotFound \<Rightarrow>
                    (JSON StatusNotFound (H_error ''Wishlist not found''), d)
                | Inl ErrOther \<Rightarrow>
                    (JSON StatusInternalServerError (H_error ''Error fetching wishlist''), d)
                | Inr wishlist \<Rightarrow>
                    if w_UserID wishlist \<noteq> userID
                    then (JSON StatusForbidden (H_error ''Only the creator can add items''), d)
                    else
                      (let item = \<lparr>i_ID = uuid, i_WishlistID = wishlistID,
                                    i_Name = ai_Name input,
                                    i_Description = ai_Description input,
                                    i_Purchased = False, i_CreatedAt = []\<rparr>
                       in case Create_item (2 \<in> outage) item d of
                            Inl err \<Rightarrow>
                              (JSON StatusInternalServerError
                                 (H_error ''Error adding item''), d)
                          | Inr d1 \<Rightarrow>
                              (JSON StatusOK (JObject [(''item'', json_Item item)]), d1)))))"

text \<open>
  PurchaseItem. \<open>uuid\<close> is the value of \<open>uuid.New().String()\<close> and \<open>now\<close> that of
  \<open>time.Now().Format(time.RFC3339)\<close>. Storage calls: 1 the item lookup, 2 the lookup of
  an existing purchase, 3 the insert, 4 the update of the flag. The lookup of an existing
  purchase stops the request only when it finds a row (\<open>err == nil\<close>); the result of the
  update is not inspected.
\<close>

definition PurchaseItem :: "nat set \<Rightarrow> string \<Rightarrow> string \<Rightarrow> Context \<Rightarrow> DB \<Rightarrow> response \<times> DB" where
  "PurchaseItem outage uuid now c d =
     (let itemID = Param c ''id'' in
      case Get c ''userID'' of
        None \<Rightarrow> (JSON StatusUnauthorized (H_error ''User not authenticated''), d)
      | Some userID \<Rightarrow>
          (case First_item (1 \<in> outage) d itemID of
             Inl ErrRecordNotFound \<Rightarrow> (JSON StatusNotFound (H_error ''Item not found''), d)
           | Inl ErrOther \<Rightarrow>
               (JSON StatusInternalServerError (H_error ''Error fetching item''), d)
           | Inr item \<Rightarrow>
               (case First_purchase (2 \<in> outage) d itemID userID of
                  Inr existingPurchase \<Rightarrow>
                    (JSON StatusBadRequest (H_error ''Item already purchased by you''), d)
                | Inl err \<Rightarrow>
                    (let purchase = \<lparr>p_ID = uuid, p_ItemID = itemID, p_UserID = userID,
                                     p_PurchasedAt = now\<rparr>
                     in case Create_purchase (3 \<in> outage) purchase d of
                          Inl err \<Rightarrow>
                            (JSON StatusInternalServerError
                               (H_error ''Error recording purchase''), d)
                        | Inr d1 \<Rightarrow>
                            (let d2 = (case Update_purchased (4 \<in> outage) item d1 of
                                         Inl err \<Rightarrow> d1
                                       | Inr d' \<Rightarrow> d')
                             in (JSON StatusOK
                                   (JObject [(''message'', JString ''Item marked as purchased'')]),
                                 d2))))))"

section \<open>Shared wishlist controller\<close>

record SharedItem =
  si_ID :: string
  si_Name :: string
  si_Description :: string
  si_Purchased :: bool
  si_PurchasedBy :: string

record SharedWishlistResponse =
  sr_ID :: string
  sr_Title :: string
  sr_Description :: string
  sr_CreatedAt :: string
  sr_Items :: "SharedItem list"

text \<open>
  The encoding by the \<open>json\<close> tags: \<open>purchased_by\<close> is tagged \<open>omitempty\<close>, so the field is
  left out when the string is empty.
\<close>

definition json_SharedItem :: "SharedItem \<Rightarrow> json" where
  "json_SharedItem si = JObject
     ([(''id'', JString (si_ID si)), (''name'', JString (si_Name si)),
       (''description'', JString (si_Description si)),
       (''purchased'', JBool (si_Purchased si))]
      @ (if si_PurchasedBy si = [] then []
         else [(''purchased_by'', JString (si_PurchasedBy si))]))"

definition json_SharedWishlistResponse :: "SharedWishlistResponse \<Rightarrow> json" where
  "json_SharedWishlistResponse r = JObject
     [(''id'', JString (sr_ID r)), (''title'', JString (sr_Title r)),
      (''description'', JString (sr_Description r)),
      (''created_at'', JString (sr_CreatedAt r)),
      (''items'', JArray (map json_SharedItem (sr_Items r)))]"

text \<open>The inner loop over \<open>item.Purchases\<close>, left at the first purchase of the requester.\<close>

fun purchases_loop :: "string \<Rightarrow> Purchase list \<Rightarrow> SharedItem \<Rightarrow> SharedItem" where
  "purchases_loop userID [] sharedItem = sharedItem"
| "purchases_loop userID (purchase # rest) sharedItem =
     (if p_UserID purchase = userID then sharedItem\<lparr>si_PurchasedBy := ''You''\<rparr>
      else purchases_loop userID rest sharedItem)"

text \<open>The outer loop over \<open>wishlist.Items\<close>, appending to \<open>response.Items\<close>.\<close>

fun items_loop ::
  "bool \<Rightarrow> string \<Rightarrow> (Item \<times> Purchase list) list \<Rightarrow> SharedItem list \<Rightarrow> SharedItem list" where
  "items_loop isAuthenticated userID [] response_Items = response_Items"
| "items_loop isAuthenticated userID ((item, item_Purchases) # rest) response_Items =
     (let sharedItem0 = \<lparr>si_ID = i_ID item, si_Name = i_Name item,
                          si_Description = i_Description item,
                          si_Purchased = i_Purchased item, si_PurchasedBy = []\<rparr>;
          sharedItem = (if isAuthenticated
                        then purchases_loop userID item_Purchases sharedItem0
                        else sharedItem0)
      in items_loop isAuthenticated userID rest (response_Items @ [sharedItem]))"

text \<open>
  GetSharedWishlist. The test of \<open>share.ExpiresAt\<close> against the clock is commented out in
  the source, so the handler neither reads the clock nor the field. Storage calls: 1 the
  share lookup, 2 the wishlist lookup with its preload, any error of which is answered
  with 500. The handler writes nothing.
\<close>

definition GetSharedWishlist :: "nat set \<Rightarrow> Context \<Rightarrow> DB \<Rightarrow> response" where
  "GetSharedWishlist outage c d =
     (let shareToken = Param c ''token'' in
      case First_share (1 \<in> outage) d shareToken of
        Inl ErrRecordNotFound \<Rightarrow>
          JSON StatusNotFound (H_error ''Invalid or expired share link'')
      | Inl ErrOther \<Rightarrow>
          JSON StatusInternalServerError (H_error ''Error fetching share link'')
      | Inr share \<Rightarrow>
          (case First_wishlist (2 \<in> outage) d (s_WishlistID share) of
             Inl err \<Rightarrow> JSON StatusInternalServerError (H_error ''Error fetching wishlist'')
           | Inr wishlist \<Rightarrow>
               (let wishlist_Items = Preload_Items_Purchases d wishlist;
                    (userID, isAuthenticated) =
                       (case Get c ''userID'' of
                          Some uid \<Rightarrow> (uid, True)
                        | None \<Rightarrow> ([], False));
                    response = \<lparr>sr_ID = w_ID wishlist, sr_Title = w_Title wishlist,
                                 sr_Description = w_Description wishlist,
                                 sr_CreatedAt = w_CreatedAt wishlist,
                                 sr_Items = items_loop isAuthenticated userID wishlist_Items []\<rparr>
                in JSON StatusOK (JObject [(''wishlist'', json_SharedWishlistResponse response)]))))"

section \<open>Sequences of requests\<close>

text \<open>
  One request to one controller, with everything the controller does not decide itself:
  the storage failures, the values drawn from \<open>uuid.New\<close> and the clock, the body and the
  context.
\<close>

datatype call =
    CallCreateWishlist "nat set" string "CreateWishlistInput option" Context
  | CallGetWishlist "nat set" Context
  | CallShareWishlist "nat set" string string nat Context
  | CallAddItem "nat set" string "AddItemInput option" Context
  | CallPurchaseItem "nat set" string string Context
  | CallGetSharedWishlist "nat set" Context

fun handle :: "call \<Rightarrow> DB \<Rightarrow> response \<times> DB" where
  "handle (CallCreateWishlist outage uuid b c) d = CreateWishlist outage uuid b c d"
| "handle (CallGetWishlist outage c) d = (GetWishlist outage c d, d)"
| "handle (CallShareWishlist outage shareToken uuid now c) d =
     ShareWishlist outage shareToken uuid now c d"
| "handle (CallAddItem outage uuid b c) d = AddItem outage uuid b c d"
| "handle (CallPurchaseItem outage uuid now c) d = PurchaseItem outage uuid now c d"
| "handle (CallGetSharedWishlist outage c) d = (GetSharedWishlist outage c d, d)"

fun run :: "call list \<Rightarrow> DB \<Rightarrow> DB" where
  "run [] d = d"
| "run (x # xs) d = run xs (snd (handle x d))"

section \<open>Routes (backend/routes/routes.go)\<close>

text \<open>
  SetupRoutes registers the wishlist and item routes on a group that uses AuthMiddleware,
  and \<open>GET /shared/:token\<close> on the group without it. The middleware package is not part
  of the sources, so \<open>AuthMiddleware\<close> is a parameter: a function that either aborts the
  request with a response or passes a context on to the controller. The router starts
  every request with a context without keys. The routes \<open>/register\<close> and \<open>/login\<close> lead
  to controllers that are not part of the sources and are left out.
\<close>

definition protected ::
  "(Context \<Rightarrow> response + Context) \<Rightarrow> (Context \<Rightarrow> DB \<Rightarrow> response \<times> DB) \<Rightarrow>
     Context \<Rightarrow> DB \<Rightarrow> response \<times> DB" where
  "protected AuthMiddleware controller c d =
     (case AuthMiddleware c of
        Inl aborted \<Rightarrow> (aborted, d)
      | Inr c' \<Rightarrow> controller c' d)"

fun SetupRoutes :: "(Context \<Rightarrow> response + Context) \<Rightarrow> call \<Rightarrow> DB \<Rightarrow> response \<times> DB" where
  "SetupRoutes AuthMiddleware (CallCreateWishlist outage uuid b c) d =
     protected AuthMiddleware (CreateWishlist outage uuid b) (c\<lparr>Keys := Map.empty\<rparr>) d"
| "SetupRoutes AuthMiddleware (CallGetWishlist outage c) d =
     protected AuthMiddleware (\<lambda>c d. (GetWishlist outage c d, d)) (c\<lparr>Keys := Map.empty\<rparr>) d"
| "SetupRoutes AuthMiddleware (CallShareWishlist outage shareToken uuid now c) d =
     protected AuthMiddleware (ShareWishlist outage shareToken uuid now)
       (c\<lparr>Keys := Map.empty\<rparr>) d"
| "SetupRoutes AuthMiddleware (CallAddItem outage uuid b c) d =
     protected AuthMiddleware (AddItem outage uuid b) (c\<lparr>Keys := Map.empty\<rparr>) d"
| "SetupRoutes AuthMiddleware (CallPurchaseItem outage uuid now c) d =
     protected AuthMiddleware (PurchaseItem outage uuid now) (c\<lparr>Keys := Map.empty\<rparr>) d"
| "SetupRoutes AuthMiddleware (CallGetSharedWishlist outage c) d =
     (GetSharedWishlist outage (c\<lparr>Keys := Map.empty\<rparr>) d, d)"

text \<open>
  Modelled from the spec: the middleware package, which is not among the sources. By
  section 6 of the specification the middleware resolves the bearer credential of a
  request into the caller's identity and puts it into the request context, where the
  controllers read it under the key \<open>userID\<close>. \<open>identifies u\<close> is the middleware on a
  request that carries the credential of user \<open>u\<close>.
\<close>

definition identifies :: "string \<Rightarrow> Context \<Rightarrow> response + Context" where
  "identifies u c = Inr (c\<lparr>Keys := (Keys c)(''userID'' \<mapsto> u)\<rparr>)"

section \<open>Notions used in the statements\<close>

text \<open>
  The viewer of a response is the identity in the request context, if any. A viewer has
  purchased an item when the purchases table holds a row of that viewer for that item.
\<close>

definition viewer_purchased :: "DB \<Rightarrow> string option \<Rightarrow> Item \<Rightarrow> bool" where
  "viewer_purchased d viewer i =
     (case viewer of
        None \<Rightarrow> False
      | Some u \<Rightarrow> \<exists>p \<in> set (purchases d). p_ItemID p = i_ID i \<and> p_UserID p = u)"

text \<open>The purchases a viewer made themselves; none for a viewer without identity.\<close>

definition purchases_of :: "string option \<Rightarrow> DB \<Rightarrow> Purchase list" where
  "purchases_of viewer d =
     (case viewer of
        None \<Rightarrow> []
      | Some u \<Rightarrow> filter (\<lambda>p. p_UserID p = u) (purchases d))"

text \<open>
  \<open>erase k j\<close> removes the fields named \<open>k\<close> from every object inside \<open>j\<close>;
  \<open>values_of k j\<close> lists the values of the fields named \<open>k\<close> of every object inside \<open>j\<close>.
\<close>

primrec erase :: "string \<Rightarrow> json \<Rightarrow> json" where
  "erase k (JString s) = JString s"
| "erase k (JBool b) = JBool b"
| "erase k JNull = JNull"
| "erase k (JArray xs) = JArray (map (erase k) xs)"
| "erase k (JObject fs) =
     JObject (filter (\<lambda>kv. fst kv \<noteq> k) (map (map_prod id (erase k)) fs))"
| "erase k JErrText = JErrText"

primrec values_of :: "string \<Rightarrow> json \<Rightarrow> json list" where
  "values_of k (JString s) = []"
| "values_of k (JBool b) = []"
| "values_of k JNull = []"
| "values_of k (JArray xs) = concat (map (values_of k) xs)"
| "values_of k (JObject fs) =
     map snd (filter (\<lambda>kv. fst kv = k) fs)
     @ concat (map snd (map (map_prod id (values_of k)) fs))"
| "values_of k JErrText = []"

text \<open>
  The update of the purchased flag is the one storage call of PurchaseItem whose result is
  not inspected. \<open>flag_update_reaches\<close> says of a request that this update, if it is
  issued, is not hit by a storage failure.
\<close>

fun flag_update_reaches :: "call \<Rightarrow> bool" where
  "flag_update_reaches (CallPurchaseItem outage uuid now c) = (4 \<notin> outage)"
| "flag_update_reaches x = True"

text \<open>Every purchase refers to an item of the items table.\<close>

definition purchases_refer :: "DB \<Rightarrow> bool" where
  "purchases_refer d = (\<forall>p \<in> set (purchases d). p_ItemID p \<in> set (map i_ID (items d)))"

text \<open>The flag of every item says whether some purchase refers to the item.\<close>

definition purchased_iff :: "DB \<Rightarrow> bool" where
  "purchased_iff d =
     (\<forall>i \<in> set (items d). i_Purchased i = (\<exists>p \<in> set (purchases d). p_ItemID p = i_ID i))"

section \<open>An example database\<close>

text \<open>
  Alice owns the wishlist \<open>w1\<close> with the item \<open>i1\<close> and has issued the share token
  \<open>T\<close>; in \<open>bought_DB\<close> Bob has purchased the item. The rows of \<open>w1\<close> and \<open>i1\<close> carry
  a creation time, as rows that the storage accepted do.
\<close>

definition request :: "string \<Rightarrow> string \<Rightarrow> string option \<Rightarrow> Context" where
  "request k v uid =
     \<lparr>Params = [k \<mapsto> v],
      Keys = (case uid of None \<Rightarrow> Map.empty | Some u \<Rightarrow> [''userID'' \<mapsto> u])\<rparr>"

definition bike :: Wishlist where
  "bike = \<lparr>w_ID = ''w1'', w_UserID = ''alice'', w_Title = ''Bike'', w_Description = [],
           w_CreatedAt = ''t1''\<rparr>"

definition trek :: Item where
  "trek = \<lparr>i_ID = ''i1'', i_WishlistID = ''w1'', i_Name = ''Trek 520'', i_Description = [],
           i_Purchased = False, i_CreatedAt = ''t2''\<rparr>"

definition link :: Share where
  "link = \<lparr>s_ID = ''s1'', s_WishlistID = ''w1'', s_Token = ''T'', s_CreatedAt = 3,
           s_ExpiresAt = 0\<rparr>"

definition bobs :: Purchase where
  "bobs = \<lparr>p_ID = ''p1'', p_ItemID = ''i1'', p_UserID = ''bob'', p_PurchasedAt = ''t4''\<rparr>"

definition carols :: Purchase where
  "carols = \<lparr>p_ID = ''p2'', p_ItemID = ''i1'', p_UserID = ''carol'', p_PurchasedAt = ''t5''\<rparr>"

definition shared_DB :: DB where
  "shared_DB = \<lparr>wishlists = [bike], items = [trek], purchases = [], shares = [link]\<rparr>"

definition bought_DB :: DB where
  "bought_DB = \<lparr>wishlists = [bike], items = [trek\<lparr>i_Purchased := True\<rparr>],
                purchases = [bobs], shares = [link]\<rparr>"

lemmas example_defs =
  request_def bike_def trek_def link_def bobs_def carols_def shared_DB_def bought_DB_def empty_DB_def

lemmas storage_defs =
  First_wishlist_def First_item_def First_purchase_def First_share_def
  Preload_Items_def Preload_Purchases_def Preload_Items_Purchases_def
  Create_wishlist_def Create_item_def Create_purchase_def Create_share_def
  Update_purchased_def Param_def Get_def H_error_def Let_def

section \<open>Properties\<close>

subsection \<open>Auxiliary facts\<close>

lemma find_exists: "\<exists>x \<in> set xs. P x \<Longrightarrow> \<exists>y. find P xs = Some y \<and> P y"
  by (induction xs) auto

lemma owner_items_loop_map:
  "length out = i + length its \<Longrightarrow>
     owner_items_loop i its out = take i out @ map owner_item its"
proof (induction its arbitrary: i out)
  case Nil
  then show ?case by simp
next
  case (Cons item rest)
  then have lt: "i < length out" by simp
  have "owner_items_loop (Suc i) rest (out[i := owner_item item])
          = take (Suc i) (out[i := owner_item item]) @ map owner_item rest"
    using Cons.prems by (intro Cons.IH) simp
  also have "take (Suc i) (out[i := owner_item item]) = take i out @ [owner_item item]"
    using lt by (simp add: take_Suc_conv_app_nth)
  finally show ?case by simp
qed

lemma purchases_loop_closed:
  "purchases_loop u ps si =
     (if \<exists>p \<in> set ps. p_UserID p = u then si\<lparr>si_PurchasedBy := ''You''\<rparr> else si)"
  by (induction ps) auto

lemma items_loop_closed:
  "items_loop a u its acc =
     acc @ map (\<lambda>(i, ps). \<lparr>si_ID = i_ID i, si_Name = i_Name i, si_Description = i_Description i,
                           si_Purchased = i_Purchased i,
                           si_PurchasedBy = (if a \<and> (\<exists>p \<in> set ps. p_UserID p = u)
                                             then ''You'' else [])\<rparr>) its"
  by (induction its arbitrary: acc) (auto simp: purchases_loop_closed Let_def)

lemma response_Items_closed:
  "items_loop (Get c ''userID'' \<noteq> None) (case Get c ''userID'' of Some uid \<Rightarrow> uid | None \<Rightarrow> [])
      (Preload_Items_Purchases d w) [] =
   map (\<lambda>i. \<lparr>si_ID = i_ID i, si_Name = i_Name i, si_Description = i_Description i,
              si_Purchased = i_Purchased i,
              si_PurchasedBy = (if viewer_purchased d (Get c ''userID'') i then ''You'' else [])\<rparr>)
       (Preload_Items d w)"
  by (auto simp: items_loop_closed Preload_Items_Purchases_def Preload_Purchases_def
      viewer_purchased_def comp_def split: option.splits)

text \<open>The response of GetSharedWishlist once both of its lookups have answered.\<close>

lemma GetSharedWishlist_found:
  assumes "First_share (1 \<in> outage) d (Param c ''token'') = Inr s"
    and "First_wishlist (2 \<in> outage) d (s_WishlistID s) = Inr w"
  shows "GetSharedWishlist outage c d =
     JSON StatusOK (JObject [(''wishlist'', json_SharedWishlistResponse
       \<lparr>sr_ID = w_ID w, sr_Title = w_Title w, sr_Description = w_Description w,
        sr_CreatedAt = w_CreatedAt w,
        sr_Items = map (\<lambda>i. \<lparr>si_ID = i_ID i, si_Name = i_Name i,
                     si_Description = i_Description i, si_Purchased = i_Purchased i,
                     si_PurchasedBy = (if viewer_purchased d (Get c ''userID'') i
                                       then ''You'' else [])\<rparr>)
                   (Preload_Items d w)\<rparr>)])"
proof (cases "Get c ''userID''")
  case None
  then show ?thesis
    using assms response_Items_closed [of c d w]
    by (simp add: GetSharedWishlist_def Let_def)
next
  case (Some u)
  then show ?thesis
    using assms response_Items_closed [of c d w]
    by (simp add: GetSharedWishlist_def Let_def)
qed

text \<open>The three ways GetSharedWishlist can go.\<close>

lemma GetSharedWishlist_cases:
  obtains (share_error) e where "First_share (1 \<in> outage) d (Param c ''token'') = Inl e"
      "GetSharedWishlist outage c d =
         (case e of
            ErrRecordNotFound \<Rightarrow> JSON StatusNotFound (H_error ''Invalid or expired share link'')
          | ErrOther \<Rightarrow> JSON StatusInternalServerError (H_error ''Error fetching share link''))"
  | (wishlist_error) s e where "First_share (1 \<in> outage) d (Param c ''token'') = Inr s"
      "First_wishlist (2 \<in> outage) d (s_WishlistID s) = Inl e"
      "GetSharedWishlist outage c d =
         JSON StatusInternalServerError (H_error ''Error fetching wishlist'')"
  | (found) s w where "First_share (1 \<in> outage) d (Param c ''token'') = Inr s"
      "First_wishlist (2 \<in> outage) d (s_WishlistID s) = Inr w"
proof (cases "First_share (1 \<in> outage) d (Param c ''token'')")
  case (Inl e)
  then show ?thesis
    by (intro share_error [of e]) (simp_all add: GetSharedWishlist_def split: db_error.splits)
next
  case (Inr s)
  show ?thesis
  proof (cases "First_wishlist (2 \<in> outage) d (s_WishlistID s)")
    case (Inl e)
    with Inr show ?thesis
      by (intro wishlist_error [of s e]) (simp_all add: GetSharedWishlist_def)
  next
    case (Inr w)
    with \<open>First_share (1 \<in> outage) d (Param c ''token'') = Inr s\<close> show ?thesis
      by (intro found [of s w])
  qed
qed

lemma erase_json_SharedItem:
  "erase ''purchased_by'' (json_SharedItem si) =
     JObject [(''id'', JString (si_ID si)), (''name'', JString (si_Name si)),
              (''description'', JString (si_Description si)),
              (''purchased'', JBool (si_Purchased si))]"
  by (simp add: json_SharedItem_def)

lemma values_of_json_SharedItem:
  "values_of ''purchased_by'' (json_SharedItem si) =
     (if si_PurchasedBy si = [] then [] else [JString (si_PurchasedBy si)])"
  by (simp add: json_SharedItem_def)

lemma viewer_purchased_own:
  "viewer_purchased d v i = (\<exists>p \<in> set (purchases_of v d). p_ItemID p = i_ID i)"
  by (auto simp: viewer_purchased_def purchases_of_def split: option.splits)

subsection \<open>Tables only grow\<close>

lemma find_append_Some: "find P xs = Some x \<Longrightarrow> find P (xs @ ys) = Some x"
  by (induction xs) auto

lemma find_append_None: "find P xs = None \<Longrightarrow> find P (xs @ ys) = find P ys"
  by (induction xs) auto

lemma First_share_grow:
  "First_share f d t = Inr s \<Longrightarrow> shares d' = shares d @ ys \<Longrightarrow> First_share f d' t = Inr s"
  by (auto simp: First_share_def find_append_Some split: if_splits option.splits)

lemma First_wishlist_grow:
  "First_wishlist f d x = Inr w \<Longrightarrow> wishlists d' = wishlists d @ ys \<Longrightarrow>
     First_wishlist f d' x = Inr w"
  by (auto simp: First_wishlist_def find_append_Some split: if_splits option.splits)

lemma First_share_flag: "First_share f d t = Inr s \<Longrightarrow> First_share False d t = Inr s"
  by (auto simp: First_share_def split: if_splits)

lemma First_wishlist_flag: "First_wishlist f d x = Inr w \<Longrightarrow> First_wishlist False d x = Inr w"
  by (auto simp: First_wishlist_def split: if_splits)

lemma First_wishlist_ID: "First_wishlist f d x = Inr w \<Longrightarrow> w_ID w = x"
  by (auto simp: First_wishlist_def find_Some_iff split: if_splits option.splits)

text \<open>What a successful ShareWishlist has done.\<close>

lemma ShareWishlist_ok:
  assumes "status (fst (ShareWishlist outage shareToken uuid now c d)) = StatusOK"
  shows "\<exists>w. Get c ''userID'' = Some (w_UserID w)
           \<and> First_wishlist False d (Param c ''id'') = Inr w
           \<and> shareToken \<notin> set (map s_Token (shares d))
           \<and> uuid \<notin> set (map s_ID (shares d))
           \<and> snd (ShareWishlist outage shareToken uuid now c d) =
               d\<lparr>shares := shares d @ [\<lparr>s_ID = uuid, s_WishlistID = Param c ''id'',
                  s_Token = shareToken, s_CreatedAt = now, s_ExpiresAt = 0\<rparr>]\<rparr>"
  using assms
  by (auto simp: ShareWishlist_def Let_def Create_share_def dest: First_wishlist_flag
      split: option.splits sum.splits db_error.splits if_splits)

lemma handle_grows:
  "\<exists>ws ss. wishlists (snd (handle x d)) = wishlists d @ ws
         \<and> shares (snd (handle x d)) = shares d @ ss"
proof (cases x)
  case (CallCreateWishlist outage uuid b c)
  then show ?thesis
    by (auto simp: CreateWishlist_def Let_def Create_wishlist_def
        split: option.splits sum.splits)
next
  case (CallGetWishlist outage c)
  then show ?thesis by simp
next
  case (CallShareWishlist outage shareToken uuid now c)
  then show ?thesis
    by (auto simp: ShareWishlist_def Let_def Create_share_def
        split: option.splits sum.splits db_error.splits)
next
  case (CallAddItem outage uuid b c)
  then show ?thesis
    by (auto simp: AddItem_def Let_def Create_item_def
        split: option.splits sum.splits db_error.splits)
next
  case (CallPurchaseItem outage uuid now c)
  then show ?thesis
    by (auto simp: PurchaseItem_def Let_def Create_purchase_def Update_purchased_def
        split: option.splits sum.splits db_error.splits)
next
  case (CallGetSharedWishlist outage c)
  then show ?thesis by simp
qed

lemma run_grows:
  "\<exists>ws ss. wishlists (run xs d) = wishlists d @ ws \<and> shares (run xs d) = shares d @ ss"
proof (induction xs arbitrary: d)
  case Nil
  then show ?case by simp
next
  case (Cons x xs)
  obtain ws ss where 1: "wishlists (snd (handle x d)) = wishlists d @ ws"
      "shares (snd (handle x d)) = shares d @ ss"
    using handle_grows [of x d] by blast
  obtain ws' ss' where 2: "wishlists (run xs (snd (handle x d))) = wishlists (snd (handle x d)) @ ws'"
      "shares (run xs (snd (handle x d))) = shares (snd (handle x d)) @ ss'"
    using Cons.IH [of "snd (handle x d)"] by blast
  from 1 2 show ?case by simp
qed

lemma GetSharedWishlist_ok_found:
  assumes "status (GetSharedWishlist outage c d) = StatusOK"
  obtains s w where "First_share (1 \<in> outage) d (Param c ''token'') = Inr s"
    and "First_wishlist (2 \<in> outage) d (s_WishlistID s) = Inr w"
proof (cases rule: GetSharedWishlist_cases [of outage d c])
  case (share_error e)
  with assms show ?thesis by (simp split: db_error.splits)
next
  case (wishlist_error s e)
  with assms show ?thesis by simp
next
  case (found s w)
  then show ?thesis by (rule that)
qed


lemma find_None_fresh: "k \<notin> set (map f xs) \<Longrightarrow> find (\<lambda>x. f x = k) xs = None"
  by (induction xs) auto

lemma find_map_same:
  "(\<And>x. P (g x) = P x) \<Longrightarrow> find P (map g xs) = map_option g (find P xs)"
  by (induction xs) auto

lemma GetSharedWishlist_ignores_ExpiresAt:
  "GetSharedWishlist outage c (d\<lparr>shares := map (\<lambda>s. s\<lparr>s_ExpiresAt := e s\<rparr>) (shares d)\<rparr>) =
   GetSharedWishlist outage c d"
proof -
  define d' where "d' = d\<lparr>shares := map (\<lambda>s. s\<lparr>s_ExpiresAt := e s\<rparr>) (shares d)\<rparr>"
  have sh: "First_share f d' t = map_sum id (\<lambda>s. s\<lparr>s_ExpiresAt := e s\<rparr>) (First_share f d t)" for f t
    by (simp add: First_share_def d'_def find_map_same split: option.splits)
  have wl: "First_wishlist f d' x = First_wishlist f d x" for f x
    by (simp add: First_wishlist_def d'_def)
  have it: "Preload_Items d' w = Preload_Items d w" for w
    by (simp add: Preload_Items_def d'_def)
  have vp: "viewer_purchased d' v i = viewer_purchased d v i" for v i
    by (simp add: viewer_purchased_def d'_def split: option.splits)
  show ?thesis
  proof (cases rule: GetSharedWishlist_cases [of outage d c])
    case (share_error e)
    then show ?thesis
      using sh [of "1 \<in> outage" "Param c ''token''"]
      by (simp add: GetSharedWishlist_def d'_def [symmetric] split: db_error.splits)
  next
    case (wishlist_error s e0)
    then show ?thesis
      using sh [of "1 \<in> outage" "Param c ''token''"] wl
      by (simp add: GetSharedWishlist_def d'_def [symmetric])
  next
    case (found s w)
    have s': "First_share (1 \<in> outage) d' (Param c ''token'') = Inr (s\<lparr>s_ExpiresAt := e s\<rparr>)"
      using found sh by simp
    have w': "First_wishlist (2 \<in> outage) d' (s_WishlistID (s\<lparr>s_ExpiresAt := e s\<rparr>)) = Inr w"
      using found wl by simp
    show ?thesis
      using GetSharedWishlist_found [OF found] GetSharedWishlist_found [OF s' w'] it vp
      by (simp add: d'_def [symmetric])
  qed
qed


subsection \<open>The effect of the controllers on items and purchases\<close>

lemma map_i_ID_update:
  "map (i_ID \<circ> (\<lambda>i. if P i then i\<lparr>i_Purchased := True\<rparr> else i)) xs = map i_ID xs"
  by (induction xs) auto

lemma First_item_Some:
  "First_item f d x = Inr item \<Longrightarrow> item \<in> set (items d) \<and> i_ID item = x"
  by (auto simp: First_item_def find_Some_iff split: if_splits option.splits)

text \<open>CreateWishlist and AddItem leave the database as it was, whatever they answer.\<close>

lemma CreateWishlist_writes_nothing: "snd (CreateWishlist outage uuid b c d) = d"
  by (simp add: CreateWishlist_def Create_wishlist_def Let_def split: option.splits)

lemma AddItem_writes_nothing: "snd (AddItem outage uuid b c d) = d"
  by (simp add: AddItem_def Create_item_def Let_def
      split: option.splits sum.splits db_error.splits)

lemma PurchaseItem_effect:
  "snd (PurchaseItem outage uuid now c d) = d
   \<or> 4 \<in> outage
   \<or> (\<exists>u item. item \<in> set (items d) \<and> i_ID item = Param c ''id''
        \<and> snd (PurchaseItem outage uuid now c d) =
            d\<lparr>purchases := purchases d @ [\<lparr>p_ID = uuid, p_ItemID = Param c ''id'',
                                             p_UserID = u, p_PurchasedAt = now\<rparr>],
              items := map (\<lambda>i. if i_ID i = Param c ''id'' then i\<lparr>i_Purchased := True\<rparr>
                                 else i) (items d)\<rparr>)"
proof (cases "Get c ''userID''")
  case None
  then show ?thesis by (simp add: PurchaseItem_def)
next
  case (Some u)
  show ?thesis
  proof (cases "First_item (1 \<in> outage) d (Param c ''id'')")
    case (Inl e)
    with Some show ?thesis
      by (simp add: PurchaseItem_def split: db_error.splits)
  next
    case (Inr item)
    then have mem: "item \<in> set (items d)" and id: "i_ID item = Param c ''id''"
      by (auto dest: First_item_Some)
    show ?thesis
    proof (cases "4 \<in> outage")
      case True
      then show ?thesis by simp
    next
      case False
      with Some Inr mem id show ?thesis
        by (auto simp: PurchaseItem_def Let_def Create_purchase_def Update_purchased_def
            split: sum.splits)
    qed
  qed
qed

text \<open>
  When no flag update is lost, every controller keeps the purchased flags in step with the
  purchases, from any state in which every purchase refers to an existing item.
\<close>

lemma handle_invariant:
  assumes "purchases_refer d" and "purchased_iff d" and "flag_update_reaches x"
  shows "purchases_refer (snd (handle x d)) \<and> purchased_iff (snd (handle x d))"
proof (cases x)
  case (CallCreateWishlist outage uuid b c)
  with assms show ?thesis by (simp add: CreateWishlist_writes_nothing)
next
  case (CallGetWishlist outage c)
  with assms show ?thesis by simp
next
  case (CallShareWishlist outage shareToken uuid now c)
  then show ?thesis
    using assms
    by (auto simp: ShareWishlist_def Let_def Create_share_def purchases_refer_def
        purchased_iff_def split: option.splits sum.splits db_error.splits)
next
  case (CallAddItem outage uuid b c)
  with assms show ?thesis by (simp add: AddItem_writes_nothing)
next
  case (CallPurchaseItem outage uuid now c)
  from PurchaseItem_effect [of outage uuid now c d] show ?thesis
  proof (elim disjE conjE exE)
    assume "snd (PurchaseItem outage uuid now c d) = d"
    with assms CallPurchaseItem show ?thesis by simp
  next
    assume "4 \<in> outage"
    with assms(3) CallPurchaseItem show ?thesis by simp
  next
    fix u item
    assume mem: "item \<in> set (items d)" and id: "i_ID item = Param c ''id''"
      and eq: "snd (PurchaseItem outage uuid now c d) =
            d\<lparr>purchases := purchases d @ [\<lparr>p_ID = uuid, p_ItemID = Param c ''id'',
                                             p_UserID = u, p_PurchasedAt = now\<rparr>],
              items := map (\<lambda>i. if i_ID i = Param c ''id'' then i\<lparr>i_Purchased := True\<rparr>
                                 else i) (items d)\<rparr>"
    have 1: "purchases_refer (snd (PurchaseItem outage uuid now c d))"
    proof -
      have "Param c ''id'' \<in> set (map i_ID (items d))"
        using mem id by force
      then show ?thesis
        using assms(1) unfolding eq purchases_refer_def
        by (simp add: map_i_ID_update del: set_map)
    qed
    have 2: "purchased_iff (snd (PurchaseItem outage uuid now c d))"
      using assms(2) unfolding eq purchased_iff_def
      by auto
    from 1 2 CallPurchaseItem show ?thesis by simp
  qed
next
  case (CallGetSharedWishlist outage c)
  with assms show ?thesis by simp
qed

lemma run_invariant:
  "purchases_refer d \<Longrightarrow> purchased_iff d \<Longrightarrow> \<forall>x \<in> set xs. flag_update_reaches x \<Longrightarrow>
     purchases_refer (run xs d) \<and> purchased_iff (run xs d)"
proof (induction xs arbitrary: d)
  case Nil
  then show ?case by simp
next
  case (Cons x xs)
  then have "purchases_refer (snd (handle x d)) \<and> purchased_iff (snd (handle x d))"
    by (intro handle_invariant) simp_all
  then show ?case
    using Cons.IH [of "snd (handle x d)"] Cons.prems(3) by simp
qed


subsection \<open>The owner view\<close>

text \<open>
  Claim C2. When the owner fetches their wishlist through GetWishlist (and the storage
  answers), the response lists, for each item of the wishlist, exactly the fields id,
  name, description, purchased and created_at: there is no purchased_by field and no
  purchaser identity. The response is the same whatever the purchases table holds.
\<close>

theorem GetWishlist_owner_view:
  assumes "Get c ''userID'' = Some u"
    and "First_wishlist False d (Param c ''id'') = Inr w"
    and "w_UserID w = u"
    and "1 \<notin> outage"
  shows "GetWishlist outage c d =
           JSON StatusOK (JObject
             [(''id'', JString (w_ID w)), (''title'', JString (w_Title w)),
              (''description'', JString (w_Description w)),
              (''created_at'', JString (w_CreatedAt w)),
              (''items'', JArray (map (\<lambda>i. JObject
                 [(''id'', JString (i_ID i)), (''name'', JString (i_Name i)),
                  (''description'', JString (i_Description i)),
                  (''purchased'', JBool (i_Purchased i)),
                  (''created_at'', JString (i_CreatedAt i))]) (Preload_Items d w)))])
       \<and> (\<forall>ps. GetWishlist outage c (d\<lparr>purchases := ps\<rparr>) = GetWishlist outage c d)"
proof -
  have loop: "owner_items_loop 0 its (replicate (length its) JNull) = map owner_item its" for its
    by (simp add: owner_items_loop_map)
  have "map owner_item its = map (\<lambda>i. JObject
                 [(''id'', JString (i_ID i)), (''name'', JString (i_Name i)),
                  (''description'', JString (i_Description i)),
                  (''purchased'', JBool (i_Purchased i)),
                  (''created_at'', JString (i_CreatedAt i))]) its" for its
    by (simp add: owner_item_def)
  then have first: "GetWishlist outage c d =
           JSON StatusOK (JObject
             [(''id'', JString (w_ID w)), (''title'', JString (w_Title w)),
              (''description'', JString (w_Description w)),
              (''created_at'', JString (w_CreatedAt w)),
              (''items'', JArray (map (\<lambda>i. JObject
                 [(''id'', JString (i_ID i)), (''name'', JString (i_Name i)),
                  (''description'', JString (i_Description i)),
                  (''purchased'', JBool (i_Purchased i)),
                  (''created_at'', JString (i_CreatedAt i))]) (Preload_Items d w)))])"
    using assms by (simp add: GetWishlist_def Let_def loop)
  have "GetWishlist outage c (d\<lparr>purchases := ps\<rparr>) = GetWishlist outage c d" for ps
  proof -
    have a: "First_wishlist f (d\<lparr>purchases := ps\<rparr>) x = First_wishlist f d x" for f x
      by (simp add: First_wishlist_def)
    have b: "Preload_Items (d\<lparr>purchases := ps\<rparr>) x = Preload_Items d x" for x
      by (simp add: Preload_Items_def)
    show ?thesis
      by (simp add: GetWishlist_def a b Let_def
          split: option.splits sum.splits db_error.splits)
  qed
  with first show ?thesis by blast
qed

theorem GetWishlist_owner_view_witness:
  "GetWishlist {} (request ''id'' ''w1'' (Some ''alice'')) bought_DB =
     JSON StatusOK (JObject
       [(''id'', JString ''w1''), (''title'', JString ''Bike''), (''description'', JString []),
        (''created_at'', JString ''t1''),
        (''items'', JArray [JObject
           [(''id'', JString ''i1''), (''name'', JString ''Trek 520''),
            (''description'', JString []), (''purchased'', JBool True),
            (''created_at'', JString ''t2'')]])])"
proof -
  have "Get (request ''id'' ''w1'' (Some ''alice'')) ''userID'' = Some ''alice''"
    by (simp add: storage_defs example_defs)
  moreover have "First_wishlist False bought_DB (Param (request ''id'' ''w1'' (Some ''alice'')) ''id'')
                   = Inr bike"
    by (simp add: storage_defs example_defs)
  moreover have "w_UserID bike = ''alice''"
    by (simp add: example_defs)
  moreover have "1 \<notin> ({} :: nat set)"
    by simp
  ultimately show ?thesis
    using GetWishlist_owner_view
      [of "request ''id'' ''w1'' (Some ''alice'')" "''alice''" bought_DB bike "{}"]
    by (simp add: storage_defs example_defs)
qed

subsection \<open>Ownership checks\<close>

text \<open>
  Claim C6, as amended. For an existing wishlist and an authenticated caller who is not its
  owner (storage answering), GetWishlist and ShareWishlist answer 403, and AddItem answers
  403 when its body passes validation; no wishlist data is returned and the database is
  left as it was. A caller without identity is answered 401 "User not authenticated" by
  GetWishlist and ShareWishlist, and by AddItem when the body passes validation. A body
  that fails validation is answered 400 by AddItem before the caller is looked at, also
  without any write.
\<close>

theorem non_owner_denied:
  assumes "Get c ''userID'' = Some u"
    and "First_wishlist False d (Param c ''id'') = Inr w"
    and "u \<noteq> w_UserID w"
    and "1 \<notin> outage"
    and "ShouldBindJSON_AddItemInput b = Some input"
    and "Get c' ''userID'' = None"
    and "ShouldBindJSON_AddItemInput b' = None"
  shows "GetWishlist outage c d = JSON StatusForbidden (H_error ''Access denied'')
       \<and> AddItem outage uuid b c d =
           (JSON StatusForbidden (H_error ''Only the creator can add items''), d)
       \<and> ShareWishlist outage shareToken uuid' now' c d =
           (JSON StatusForbidden (H_error ''Only the creator can share the wishlist''), d)
       \<and> GetWishlist outage' c' d' =
           JSON StatusUnauthorized (H_error ''User not authenticated'')
       \<and> AddItem outage' uuid b c' d' =
           (JSON StatusUnauthorized (H_error ''User not authenticated''), d')
       \<and> ShareWishlist outage' shareToken uuid' now' c' d' =
           (JSON StatusUnauthorized (H_error ''User not authenticated''), d')
       \<and> AddItem outage' uuid b' c'' d' =
           (JSON StatusBadRequest (JObject [(''error'', JErrText)]), d')"
  using assms
  by (simp add: GetWishlist_def AddItem_def ShareWishlist_def)

theorem non_owner_denied_witness:
  "GetWishlist {} (request ''id'' ''w1'' (Some ''bob'')) shared_DB =
     JSON StatusForbidden (H_error ''Access denied'')
   \<and> AddItem {} ''i2'' (Some \<lparr>ai_Name = ''Helmet'', ai_Description = []\<rparr>)
       (request ''id'' ''w1'' (Some ''bob'')) shared_DB =
       (JSON StatusForbidden (H_error ''Only the creator can add items''), shared_DB)
   \<and> ShareWishlist {} ''U'' ''s2'' 5 (request ''id'' ''w1'' (Some ''bob'')) shared_DB =
       (JSON StatusForbidden (H_error ''Only the creator can share the wishlist''), shared_DB)
   \<and> GetWishlist {} (request ''id'' ''w1'' None) shared_DB =
       JSON StatusUnauthorized (H_error ''User not authenticated'')"
proof -
  have "Get (request ''id'' ''w1'' (Some ''bob'')) ''userID'' = Some ''bob''"
    by (simp add: storage_defs example_defs)
  moreover have "First_wishlist False shared_DB (Param (request ''id'' ''w1'' (Some ''bob'')) ''id'')
                   = Inr bike"
    by (simp add: storage_defs example_defs)
  moreover have "''bob'' \<noteq> w_UserID bike"
    by (simp add: example_defs)
  moreover have "1 \<notin> ({} :: nat set)"
    by simp
  moreover have "ShouldBindJSON_AddItemInput (Some \<lparr>ai_Name = ''Helmet'', ai_Description = []\<rparr>)
                   = Some \<lparr>ai_Name = ''Helmet'', ai_Description = []\<rparr>"
    by (simp add: ShouldBindJSON_AddItemInput_def)
  moreover have "Get (request ''id'' ''w1'' None) ''userID'' = None"
    by (simp add: storage_defs example_defs)
  moreover have "ShouldBindJSON_AddItemInput None = None"
    by (simp add: ShouldBindJSON_AddItemInput_def)
  ultimately show ?thesis
    using non_owner_denied
      [of "request ''id'' ''w1'' (Some ''bob'')" "''bob''" shared_DB bike "{}"
          "Some \<lparr>ai_Name = ''Helmet'', ai_Description = []\<rparr>"
          "\<lparr>ai_Name = ''Helmet'', ai_Description = []\<rparr>"
          "request ''id'' ''w1'' None" None "''i2''" "''U''" "''s2''" 5 "{}" shared_DB]
    by blast
qed

text \<open>
  The claim as first stated fails for AddItem: Bob, who does not own \<open>w1\<close>, sends a body
  whose name is empty and is answered 400, not 403.
\<close>

theorem AddItem_non_owner_counterexample:
  "First_wishlist False shared_DB (Param (request ''id'' ''w1'' (Some ''bob'')) ''id'') = Inr bike
   \<and> Get (request ''id'' ''w1'' (Some ''bob'')) ''userID'' = Some ''bob''
   \<and> ''bob'' \<noteq> w_UserID bike
   \<and> AddItem {} ''i2'' (Some \<lparr>ai_Name = [], ai_Description = ''blue''\<rparr>)
        (request ''id'' ''w1'' (Some ''bob'')) shared_DB =
        (JSON StatusBadRequest (JObject [(''error'', JErrText)]), shared_DB)
   \<and> StatusBadRequest \<noteq> StatusForbidden"
  by (simp add: AddItem_def ShouldBindJSON_AddItemInput_def storage_defs example_defs)

subsection \<open>The shared view\<close>

text \<open>
  What GetSharedWishlist answers when its two lookups are answered by the storage: one
  object per item of the wishlist, which carries the field purchased_by, with the value
  "You", if and only if the context the handler is given holds the identity of a user who
  has a Purchase on that item.
\<close>

lemma GetSharedWishlist_purchased_by:
  assumes "First_share False d (Param c ''token'') = Inr s"
    and "First_wishlist False d (s_WishlistID s) = Inr w"
    and "1 \<notin> outage" and "2 \<notin> outage"
  shows "GetSharedWishlist outage c d =
     JSON StatusOK (JObject [(''wishlist'', JObject
       [(''id'', JString (w_ID w)), (''title'', JString (w_Title w)),
        (''description'', JString (w_Description w)),
        (''created_at'', JString (w_CreatedAt w)),
        (''items'', JArray (map (\<lambda>i. JObject
           ([(''id'', JString (i_ID i)), (''name'', JString (i_Name i)),
             (''description'', JString (i_Description i)),
             (''purchased'', JBool (i_Purchased i))]
            @ (if viewer_purchased d (Get c ''userID'') i
               then [(''purchased_by'', JString ''You'')] else [])))
          (Preload_Items d w)))])])"
  using assms GetSharedWishlist_found [of outage d c s w]
  by (simp add: json_SharedWishlistResponse_def json_SharedItem_def comp_def)

text \<open>
  Through the routes as SetupRoutes registers them GetSharedWishlist never finds an
  identity in its context, whatever AuthMiddleware does, so no response on that route
  carries a purchased_by field.
\<close>

lemma shared_route_without_identity:
  "values_of ''purchased_by''
     (body (fst (SetupRoutes AuthMiddleware (CallGetSharedWishlist outage c) d))) = []"
proof -
  define c0 where "c0 = c\<lparr>Keys := Map.empty\<rparr>"
  have anon: "viewer_purchased d (Get c0 ''userID'') i = False" for i
    by (simp add: viewer_purchased_def Get_def c0_def)
  have "values_of ''purchased_by'' (body (GetSharedWishlist outage c0 d)) = []"
  proof (cases rule: GetSharedWishlist_cases [of outage d c0])
    case (share_error e)
    then show ?thesis
      by (simp add: H_error_def split: db_error.splits)
  next
    case (wishlist_error s e)
    then show ?thesis
      by (simp add: H_error_def)
  next
    case (found s w)
    then show ?thesis
      using GetSharedWishlist_found [of outage d c0 s w]
      by (simp add: anon json_SharedWishlistResponse_def values_of_json_SharedItem comp_def)
  qed
  then show ?thesis
    by (simp add: c0_def)
qed

text \<open>
  Claim C1. The claim is that a user who holds a Purchase on an item is shown purchased_by
  on that item when they fetch the wishlist through a share token. The code does not do
  this: \<open>GET /shared/:token\<close> is registered outside the group that uses the middleware,
  so the identity the handler looks for is never in its context. Bob holds the purchase on
  \<open>i1\<close>, and the middleware identifies his requests: on the protected route his repeated
  purchase is answered "Item already purchased by you". His request for the shared
  wishlist \<open>T\<close> is answered with the item marked purchased and without a purchased_by
  field.
\<close>

theorem shared_route_hides_own_purchase:
  "viewer_purchased bought_DB (Some ''bob'') (trek\<lparr>i_Purchased := True\<rparr>)
   \<and> fst (SetupRoutes (identifies ''bob'')
            (CallPurchaseItem {} ''p2'' ''t5'' (request ''id'' ''i1'' None)) bought_DB) =
     JSON StatusBadRequest (H_error ''Item already purchased by you'')
   \<and> SetupRoutes (identifies ''bob'')
        (CallGetSharedWishlist {} (request ''token'' ''T'' None)) bought_DB =
     (JSON StatusOK (JObject [(''wishlist'', JObject
        [(''id'', JString ''w1''), (''title'', JString ''Bike''), (''description'', JString []),
         (''created_at'', JString ''t1''),
         (''items'', JArray [JObject
            [(''id'', JString ''i1''), (''name'', JString ''Trek 520''),
             (''description'', JString []), (''purchased'', JBool True)]])])]),
      bought_DB)"
  by (simp add: protected_def identifies_def PurchaseItem_def GetSharedWishlist_def
      json_SharedWishlistResponse_def json_SharedItem_def viewer_purchased_def
      storage_defs example_defs)

text \<open>
  Claim C9. Two viewers of the same share token get responses with the same status that
  are equal once the purchased_by fields are removed; the only value a purchased_by field
  ever has is the literal "You"; and the response to a viewer is the same in any two
  databases that agree on the wishlists, items, shares and on the viewer's own purchases,
  so it does not depend on which other users hold purchases.
\<close>

theorem GetSharedWishlist_viewers:
  "(Params c = Params c' \<longrightarrow>
      status (GetSharedWishlist outage c d) = status (GetSharedWishlist outage c' d)
      \<and> erase ''purchased_by'' (body (GetSharedWishlist outage c d)) =
         erase ''purchased_by'' (body (GetSharedWishlist outage c' d)))
   \<and> set (values_of ''purchased_by'' (body (GetSharedWishlist outage c d))) \<subseteq> {JString ''You''}
   \<and> (wishlists d = wishlists d' \<and> items d = items d' \<and> shares d = shares d'
        \<and> purchases_of (Get c ''userID'') d = purchases_of (Get c ''userID'') d' \<longrightarrow>
      GetSharedWishlist outage c d = GetSharedWishlist outage c d')"
proof (intro conjI impI)
  assume same: "Params c = Params c'"
  then have tok: "Param c' ''token'' = Param c ''token''"
    by (simp add: Param_def)
  show "status (GetSharedWishlist outage c d) = status (GetSharedWishlist outage c' d)"
  proof (cases rule: GetSharedWishlist_cases [of outage d c])
    case (share_error e)
    then show ?thesis
      using tok by (simp add: GetSharedWishlist_def split: db_error.splits)
  next
    case (wishlist_error s e)
    then show ?thesis
      using tok by (simp add: GetSharedWishlist_def)
  next
    case (found s w)
    then show ?thesis
      using tok GetSharedWishlist_found [of outage d c s w]
        GetSharedWishlist_found [of outage d c' s w]
      by simp
  qed
  show "erase ''purchased_by'' (body (GetSharedWishlist outage c d)) =
        erase ''purchased_by'' (body (GetSharedWishlist outage c' d))"
  proof (cases rule: GetSharedWishlist_cases [of outage d c])
    case (share_error e)
    then show ?thesis
      using tok by (simp add: GetSharedWishlist_def split: db_error.splits)
  next
    case (wishlist_error s e)
    then show ?thesis
      using tok by (simp add: GetSharedWishlist_def)
  next
    case (found s w)
    then show ?thesis
      using tok GetSharedWishlist_found [of outage d c s w]
        GetSharedWishlist_found [of outage d c' s w]
      by (simp add: json_SharedWishlistResponse_def erase_json_SharedItem comp_def)
  qed
next
  show "set (values_of ''purchased_by'' (body (GetSharedWishlist outage c d)))
          \<subseteq> {JString ''You''}"
  proof (cases rule: GetSharedWishlist_cases [of outage d c])
    case (share_error e)
    then show ?thesis
      by (simp add: H_error_def split: db_error.splits)
  next
    case (wishlist_error s e)
    then show ?thesis
      by (simp add: H_error_def)
  next
    case (found s w)
    then show ?thesis
      using GetSharedWishlist_found [of outage d c s w]
      by (auto simp: json_SharedWishlistResponse_def values_of_json_SharedItem comp_def
          split: if_splits)
  qed
next
  assume eq: "wishlists d = wishlists d' \<and> items d = items d' \<and> shares d = shares d'
        \<and> purchases_of (Get c ''userID'') d = purchases_of (Get c ''userID'') d'"
  then have sh: "First_share f d t = First_share f d' t" for f t
    by (simp add: First_share_def)
  have wl: "First_wishlist f d x = First_wishlist f d' x" for f x
    using eq by (simp add: First_wishlist_def)
  have it: "Preload_Items d w = Preload_Items d' w" for w
    using eq by (simp add: Preload_Items_def)
  have vp: "viewer_purchased d (Get c ''userID'') i = viewer_purchased d' (Get c ''userID'') i"
    for i
    using eq by (simp add: viewer_purchased_own)
  show "GetSharedWishlist outage c d = GetSharedWishlist outage c d'"
  proof (cases rule: GetSharedWishlist_cases [of outage d c])
    case (share_error e)
    then show ?thesis
      using sh by (simp add: GetSharedWishlist_def split: db_error.splits)
  next
    case (wishlist_error s e)
    then show ?thesis
      using sh wl by (simp add: GetSharedWishlist_def)
  next
    case (found s w)
    then show ?thesis
      using GetSharedWishlist_found [of outage d c s w]
        GetSharedWishlist_found [of outage d' c s w] sh wl it vp
      by simp
  qed
qed

text \<open>
  Bob and Alice look at the same link; and Bob's response is the same whether or not
  Carol has purchased the item too.
\<close>

theorem GetSharedWishlist_viewers_witness:
  "erase ''purchased_by'' (body (GetSharedWishlist {} (request ''token'' ''T'' (Some ''bob''))
      bought_DB)) =
   erase ''purchased_by'' (body (GetSharedWishlist {} (request ''token'' ''T'' (Some ''alice''))
      bought_DB))
   \<and> GetSharedWishlist {} (request ''token'' ''T'' (Some ''bob'')) bought_DB =
     GetSharedWishlist {} (request ''token'' ''T'' (Some ''bob''))
       (bought_DB\<lparr>purchases := [bobs, carols]\<rparr>)"
proof -
  have "Params (request ''token'' ''T'' (Some ''bob'')) =
        Params (request ''token'' ''T'' (Some ''alice''))"
    by (simp add: request_def)
  moreover have "wishlists bought_DB = wishlists (bought_DB\<lparr>purchases := [bobs, carols]\<rparr>)
      \<and> items bought_DB = items (bought_DB\<lparr>purchases := [bobs, carols]\<rparr>)
      \<and> shares bought_DB = shares (bought_DB\<lparr>purchases := [bobs, carols]\<rparr>)
      \<and> purchases_of (Get (request ''token'' ''T'' (Some ''bob'')) ''userID'') bought_DB =
        purchases_of (Get (request ''token'' ''T'' (Some ''bob'')) ''userID'')
          (bought_DB\<lparr>purchases := [bobs, carols]\<rparr>)"
    by (simp add: purchases_of_def storage_defs example_defs)
  ultimately show ?thesis
    using GetSharedWishlist_viewers
      [of "request ''token'' ''T'' (Some ''bob'')" "request ''token'' ''T'' (Some ''alice'')"
          "{}" bought_DB "bought_DB\<lparr>purchases := [bobs, carols]\<rparr>"]
    by blast
qed

subsection \<open>Share links\<close>

text \<open>
  Claim C4, as amended. Resolving a token through GetSharedWishlist is answered 404
  "Invalid or expired share link" when no Share with exactly that token exists. The
  expires_at of a Share is never consulted: the response is the same whatever the
  expires_at fields hold, and a token whose Share and wishlist exist resolves with 200. A
  token issued by a successful ShareWishlist resolves with 200 to the wishlist it was
  issued for after any later sequence of requests. (Lookups taken to be answered by the
  storage.)
\<close>

theorem GetSharedWishlist_resolve:
  "(1 \<notin> outage \<and> Param c ''token'' \<notin> set (map s_Token (shares d)) \<longrightarrow>
      GetSharedWishlist outage c d =
        JSON StatusNotFound (H_error ''Invalid or expired share link''))
   \<and> (\<forall>e. GetSharedWishlist outage c
             (d\<lparr>shares := map (\<lambda>s. s\<lparr>s_ExpiresAt := e s\<rparr>) (shares d)\<rparr>) =
           GetSharedWishlist outage c d)
   \<and> (1 \<notin> outage \<and> 2 \<notin> outage \<and> First_share False d (Param c ''token'') = Inr s
        \<and> First_wishlist False d (s_WishlistID s) = Inr w \<longrightarrow>
      status (GetSharedWishlist outage c d) = StatusOK)
   \<and> (1 \<notin> outage \<and> 2 \<notin> outage \<and> Param c ''token'' = shareToken
        \<and> status (fst (ShareWishlist outage' shareToken uuid now c' d)) = StatusOK \<longrightarrow>
      (\<exists>rest. GetSharedWishlist outage c
                 (run calls (snd (ShareWishlist outage' shareToken uuid now c' d))) =
               JSON StatusOK (JObject [(''wishlist'',
                 JObject ((''id'', JString (Param c' ''id'')) # rest))])))"
proof (intro conjI impI allI)
  assume "1 \<notin> outage \<and> Param c ''token'' \<notin> set (map s_Token (shares d))"
  then have "1 \<notin> outage" and "find (\<lambda>s. s_Token s = Param c ''token'') (shares d) = None"
    by (simp_all add: find_None_fresh)
  then show "GetSharedWishlist outage c d =
        JSON StatusNotFound (H_error ''Invalid or expired share link'')"
    by (simp add: GetSharedWishlist_def First_share_def)
next
  fix e
  show "GetSharedWishlist outage c (d\<lparr>shares := map (\<lambda>s. s\<lparr>s_ExpiresAt := e s\<rparr>) (shares d)\<rparr>) =
           GetSharedWishlist outage c d"
    by (rule GetSharedWishlist_ignores_ExpiresAt)
next
  assume "1 \<notin> outage \<and> 2 \<notin> outage \<and> First_share False d (Param c ''token'') = Inr s
        \<and> First_wishlist False d (s_WishlistID s) = Inr w"
  then show "status (GetSharedWishlist outage c d) = StatusOK"
    using GetSharedWishlist_found [of outage d c s w] by simp
next
  assume a: "1 \<notin> outage \<and> 2 \<notin> outage \<and> Param c ''token'' = shareToken
        \<and> status (fst (ShareWishlist outage' shareToken uuid now c' d)) = StatusOK"
  define d' where "d' = snd (ShareWishlist outage' shareToken uuid now c' d)"
  define sh where "sh = \<lparr>s_ID = uuid, s_WishlistID = Param c' ''id'', s_Token = shareToken,
                         s_CreatedAt = now, s_ExpiresAt = 0\<rparr>"
  from a have "status (fst (ShareWishlist outage' shareToken uuid now c' d)) = StatusOK"
    by blast
  from ShareWishlist_ok [OF this]
  obtain w where w: "First_wishlist False d (Param c' ''id'') = Inr w"
    and fresh: "shareToken \<notin> set (map s_Token (shares d))"
    and d': "d' = d\<lparr>shares := shares d @ [sh]\<rparr>"
    unfolding d'_def sh_def by blast
  have "find (\<lambda>s. s_Token s = shareToken) (shares d) = None"
    using fresh by (rule find_None_fresh)
  then have s1: "First_share False d' shareToken = Inr sh"
    using d' by (simp add: First_share_def find_append_None sh_def)
  have w1: "First_wishlist False d' (Param c' ''id'') = Inr w"
    by (rule First_wishlist_grow [OF w, of _ "[]"]) (simp add: d')
  obtain ws ss where grow: "wishlists (run calls d') = wishlists d' @ ws"
      "shares (run calls d') = shares d' @ ss"
    using run_grows [of calls d'] by blast
  have s2: "First_share (1 \<in> outage) (run calls d') (Param c ''token'') = Inr sh"
    using a First_share_grow [OF s1 grow(2)] by simp
  have w2: "First_wishlist (2 \<in> outage) (run calls d') (s_WishlistID sh) = Inr w"
    using a First_wishlist_grow [OF w1 grow(1)] by (simp add: sh_def)
  have "w_ID w = Param c' ''id''"
    using w by (rule First_wishlist_ID)
  then show "\<exists>rest. GetSharedWishlist outage c
                 (run calls (snd (ShareWishlist outage' shareToken uuid now c' d))) =
               JSON StatusOK (JObject [(''wishlist'',
                 JObject ((''id'', JString (Param c' ''id'')) # rest))])"
    using GetSharedWishlist_found [OF s2 w2]
    by (simp add: d'_def json_SharedWishlistResponse_def)
qed

text \<open>
  An unknown token; the token \<open>T\<close>; and a second token \<open>U\<close> that Alice issues, resolved
  after Bob has purchased the item.
\<close>

theorem GetSharedWishlist_resolve_witness:
  "GetSharedWishlist {} (request ''token'' ''X'' None) shared_DB =
     JSON StatusNotFound (H_error ''Invalid or expired share link'')
   \<and> status (GetSharedWishlist {} (request ''token'' ''T'' None) shared_DB) = StatusOK
   \<and> (\<exists>rest. GetSharedWishlist {} (request ''token'' ''U'' None)
         (run [CallPurchaseItem {} ''p1'' ''t4'' (request ''id'' ''i1'' (Some ''bob''))]
            (snd (ShareWishlist {} ''U'' ''s2'' 5 (request ''id'' ''w1'' (Some ''alice''))
                    shared_DB))) =
       JSON StatusOK (JObject [(''wishlist'', JObject ((''id'', JString ''w1'') # rest))]))"
proof -
  have absent: "1 \<notin> ({} :: nat set)
      \<and> Param (request ''token'' ''X'' None) ''token'' \<notin> set (map s_Token (shares shared_DB))"
    by (simp add: storage_defs example_defs)
  have present: "1 \<notin> ({} :: nat set) \<and> 2 \<notin> ({} :: nat set)
      \<and> First_share False shared_DB (Param (request ''token'' ''T'' None) ''token'') = Inr link
      \<and> First_wishlist False shared_DB (s_WishlistID link) = Inr bike"
    by (simp add: storage_defs example_defs)
  have issued: "1 \<notin> ({} :: nat set) \<and> 2 \<notin> ({} :: nat set)
      \<and> Param (request ''token'' ''U'' None) ''token'' = ''U''
      \<and> status (fst (ShareWishlist {} ''U'' ''s2'' 5 (request ''id'' ''w1'' (Some ''alice''))
                        shared_DB)) = StatusOK"
    by (simp add: ShareWishlist_def storage_defs example_defs)
  have id: "Param (request ''id'' ''w1'' (Some ''alice'')) ''id'' = ''w1''"
    by (simp add: storage_defs example_defs)
  from absent
    GetSharedWishlist_resolve [of "{}" "request ''token'' ''X'' None" shared_DB]
  have 1: "GetSharedWishlist {} (request ''token'' ''X'' None) shared_DB =
     JSON StatusNotFound (H_error ''Invalid or expired share link'')"
    by blast
  from present
    GetSharedWishlist_resolve [of "{}" "request ''token'' ''T'' None" shared_DB link bike]
  have 2: "status (GetSharedWishlist {} (request ''token'' ''T'' None) shared_DB) = StatusOK"
    by blast
  from issued
    GetSharedWishlist_resolve [of "{}" "request ''token'' ''U'' None" shared_DB _ _ "''U''" "{}"
      "''s2''" 5 "request ''id'' ''w1'' (Some ''alice'')"
      "[CallPurchaseItem {} ''p1'' ''t4'' (request ''id'' ''i1'' (Some ''bob''))]"]
  have "\<exists>rest. GetSharedWishlist {} (request ''token'' ''U'' None)
         (run [CallPurchaseItem {} ''p1'' ''t4'' (request ''id'' ''i1'' (Some ''bob''))]
            (snd (ShareWishlist {} ''U'' ''s2'' 5 (request ''id'' ''w1'' (Some ''alice''))
                    shared_DB))) =
       JSON StatusOK (JObject [(''wishlist'', JObject
         ((''id'', JString (Param (request ''id'' ''w1'' (Some ''alice'')) ''id'')) # rest))])"
    by blast
  with id have 3: "\<exists>rest. GetSharedWishlist {} (request ''token'' ''U'' None)
         (run [CallPurchaseItem {} ''p1'' ''t4'' (request ''id'' ''i1'' (Some ''bob''))]
            (snd (ShareWishlist {} ''U'' ''s2'' 5 (request ''id'' ''w1'' (Some ''alice''))
                    shared_DB))) =
       JSON StatusOK (JObject [(''wishlist'', JObject ((''id'', JString ''w1'') # rest))])"
    by simp
  from 1 2 3 show ?thesis by blast
qed

text \<open>
  The claim as first stated fails for a Share whose expires_at is set and has passed: the
  link below expired at instant 5, and at instant 10, as at any other, its token is
  resolved with 200.
\<close>

theorem GetSharedWishlist_expired_counterexample:
  "s_ExpiresAt (link\<lparr>s_ExpiresAt := 5\<rparr>) \<noteq> 0
   \<and> s_ExpiresAt (link\<lparr>s_ExpiresAt := 5\<rparr>) < 10
   \<and> GetSharedWishlist {} (request ''token'' ''T'' None)
       (shared_DB\<lparr>shares := [link\<lparr>s_ExpiresAt := 5\<rparr>]\<rparr>) =
     JSON StatusOK (JObject [(''wishlist'', JObject
       [(''id'', JString ''w1''), (''title'', JString ''Bike''), (''description'', JString []),
        (''created_at'', JString ''t1''),
        (''items'', JArray [JObject
           [(''id'', JString ''i1''), (''name'', JString ''Trek 520''),
            (''description'', JString []), (''purchased'', JBool False)]])])])"
  by (simp add: GetSharedWishlist_def json_SharedWishlistResponse_def json_SharedItem_def
      storage_defs example_defs)

text \<open>
  Claim C8. A successful ShareWishlist appends exactly one Share row, whose token was not
  the token of any earlier Share, and leaves the earlier rows in place; every request to
  GetSharedWishlist that was answered 200 before the call gets the same answer after it.
\<close>

theorem ShareWishlist_no_revocation:
  assumes "status (fst (ShareWishlist outage shareToken uuid now c d)) = StatusOK"
  shows "shares (snd (ShareWishlist outage shareToken uuid now c d)) =
           shares d @ [\<lparr>s_ID = uuid, s_WishlistID = Param c ''id'', s_Token = shareToken,
                         s_CreatedAt = now, s_ExpiresAt = 0\<rparr>]
       \<and> shareToken \<notin> set (map s_Token (shares d))
       \<and> (\<forall>outage' c'. status (GetSharedWishlist outage' c' d) = StatusOK \<longrightarrow>
            GetSharedWishlist outage' c' (snd (ShareWishlist outage shareToken uuid now c d)) =
            GetSharedWishlist outage' c' d)"
proof -
  define d' where "d' = snd (ShareWishlist outage shareToken uuid now c d)"
  define sh where "sh = \<lparr>s_ID = uuid, s_WishlistID = Param c ''id'', s_Token = shareToken,
                         s_CreatedAt = now, s_ExpiresAt = 0\<rparr>"
  from ShareWishlist_ok [OF assms] have fresh: "shareToken \<notin> set (map s_Token (shares d))"
    and d': "d' = d\<lparr>shares := shares d @ [sh]\<rparr>"
    unfolding d'_def sh_def by blast+
  have sh': "shares d' = shares d @ [sh]" and wl': "wishlists d' = wishlists d"
    and it': "items d' = items d" and pu': "purchases d' = purchases d"
    by (simp_all add: d')
  have keep: "GetSharedWishlist outage' c' d' = GetSharedWishlist outage' c' d"
    if ok: "status (GetSharedWishlist outage' c' d) = StatusOK" for outage' c'
  proof -
    from ok obtain s w where s: "First_share (1 \<in> outage') d (Param c' ''token'') = Inr s"
      and w: "First_wishlist (2 \<in> outage') d (s_WishlistID s) = Inr w"
      by (rule GetSharedWishlist_ok_found)
    have s': "First_share (1 \<in> outage') d' (Param c' ''token'') = Inr s"
      using s sh' by (rule First_share_grow)
    have w': "First_wishlist (2 \<in> outage') d' (s_WishlistID s) = Inr w"
      by (rule First_wishlist_grow [OF w, of _ "[]"]) (simp add: wl')
    have p: "Preload_Items d' w = Preload_Items d w"
      using it' by (simp add: Preload_Items_def)
    have v: "viewer_purchased d' v i = viewer_purchased d v i" for v i
      using pu' by (simp add: viewer_purchased_def split: option.splits)
    show ?thesis
      by (simp only: GetSharedWishlist_found [OF s w] GetSharedWishlist_found [OF s' w'] p v)
  qed
  have "shares d' = shares d @ [sh]
       \<and> shareToken \<notin> set (map s_Token (shares d))
       \<and> (\<forall>outage' c'. status (GetSharedWishlist outage' c' d) = StatusOK \<longrightarrow>
            GetSharedWishlist outage' c' d' = GetSharedWishlist outage' c' d)"
    using sh' fresh keep by blast
  then show ?thesis
    unfolding d'_def sh_def .
qed

theorem ShareWishlist_no_revocation_witness:
  "shares (snd (ShareWishlist {} ''U'' ''s2'' 5 (request ''id'' ''w1'' (Some ''alice'')) shared_DB))
     = [link, \<lparr>s_ID = ''s2'', s_WishlistID = ''w1'', s_Token = ''U'', s_CreatedAt = 5,
               s_ExpiresAt = 0\<rparr>]
   \<and> status (GetSharedWishlist {} (request ''token'' ''T'' None) shared_DB) = StatusOK
   \<and> GetSharedWishlist {} (request ''token'' ''T'' None)
       (snd (ShareWishlist {} ''U'' ''s2'' 5 (request ''id'' ''w1'' (Some ''alice'')) shared_DB))
     = GetSharedWishlist {} (request ''token'' ''T'' None) shared_DB"
proof -
  have ok: "status (fst (ShareWishlist {} ''U'' ''s2'' 5 (request ''id'' ''w1'' (Some ''alice''))
                      shared_DB)) = StatusOK"
    by (simp add: ShareWishlist_def storage_defs example_defs)
  have before: "status (GetSharedWishlist {} (request ''token'' ''T'' None) shared_DB) = StatusOK"
    by (simp add: GetSharedWishlist_def storage_defs example_defs)
  have id: "Param (request ''id'' ''w1'' (Some ''alice'')) ''id'' = ''w1''"
    by (simp add: storage_defs example_defs)
  from ShareWishlist_no_revocation [OF ok] before id show ?thesis
    by (simp add: example_defs)
qed

subsection \<open>Purchases\<close>

text \<open>
  What PurchaseItem answers to a caller who already holds a Purchase on the item when
  both of its lookups are answered by the storage: 400 "Item already purchased by you",
  and the database is left as it was.
\<close>

lemma PurchaseItem_already_purchased:
  assumes "Get c ''userID'' = Some u"
    and "\<exists>i \<in> set (items d). i_ID i = Param c ''id''"
    and "\<exists>p \<in> set (purchases d). p_ItemID p = Param c ''id'' \<and> p_UserID p = u"
    and "1 \<notin> outage" and "2 \<notin> outage"
  shows "PurchaseItem outage uuid now c d =
           (JSON StatusBadRequest (H_error ''Item already purchased by you''), d)"
proof -
  obtain item where "find (\<lambda>i. i_ID i = Param c ''id'') (items d) = Some item"
    using find_exists [OF assms(2)] by blast
  moreover obtain p where
    "find (\<lambda>p. p_ItemID p = Param c ''id'' \<and> p_UserID p = u) (purchases d) = Some p"
    using find_exists [OF assms(3)] by blast
  ultimately show ?thesis
    using assms(1,4,5) by (simp add: PurchaseItem_def First_item_def First_purchase_def)
qed

text \<open>
  Claim C3. The claim is that a further PurchaseItem by a user who already holds a
  Purchase on the item is answered with the conflict error and inserts no second row for
  that item and user. The code does not do this when the lookup of the existing purchase
  is hit by a storage failure: the request is stopped only when that lookup returns a row
  (\<open>err == nil\<close>), so a failed lookup counts as "not purchased", unlike the item lookup
  before it, whose failures are answered 500. Bob, who holds the purchase \<open>p1\<close> on
  \<open>i1\<close>, asks again while the lookup fails: the answer is 200 and a second row of Bob
  for \<open>i1\<close> is inserted.
\<close>

theorem PurchaseItem_failed_lookup_inserts:
  "purchases bought_DB = [bobs] \<and> p_ItemID bobs = ''i1'' \<and> p_UserID bobs = ''bob''
   \<and> PurchaseItem {2} ''p2'' ''t5'' (request ''id'' ''i1'' (Some ''bob'')) bought_DB =
     (JSON StatusOK (JObject [(''message'', JString ''Item marked as purchased'')]),
      bought_DB\<lparr>purchases := [bobs, \<lparr>p_ID = ''p2'', p_ItemID = ''i1'', p_UserID = ''bob'',
                                        p_PurchasedAt = ''t5''\<rparr>]\<rparr>)"
  by (simp add: PurchaseItem_def storage_defs example_defs)

text \<open>
  Claim C7. For every existing item, PurchaseItem succeeds for any authenticated caller
  who holds no Purchase on it: the answer is 200 and one Purchase row of the caller is
  appended (and the item's flag is set when the update reaches the storage). Nothing in
  the hypotheses relates the caller to the owner of the item's wishlist, so the owner can
  purchase their own item. The item lookup and the insert are taken to be answered by the
  storage, and the identifier drawn for the new row to be unused.
\<close>

theorem PurchaseItem_any_caller:
  assumes "Get c ''userID'' = Some u"
    and "First_item False d (Param c ''id'') = Inr item"
    and "\<not> (\<exists>p \<in> set (purchases d). p_ItemID p = Param c ''id'' \<and> p_UserID p = u)"
    and "uuid \<notin> set (map p_ID (purchases d))"
    and "1 \<notin> outage" and "3 \<notin> outage"
  shows "fst (PurchaseItem outage uuid now c d) =
           JSON StatusOK (JObject [(''message'', JString ''Item marked as purchased'')])
       \<and> purchases (snd (PurchaseItem outage uuid now c d)) =
           purchases d @ [\<lparr>p_ID = uuid, p_ItemID = Param c ''id'', p_UserID = u,
                           p_PurchasedAt = now\<rparr>]
       \<and> (4 \<notin> outage \<longrightarrow>
            items (snd (PurchaseItem outage uuid now c d)) =
              map (\<lambda>i. if i_ID i = Param c ''id'' then i\<lparr>i_Purchased := True\<rparr> else i) (items d))"
proof -
  have none: "find (\<lambda>p. p_ItemID p = Param c ''id'' \<and> p_UserID p = u) (purchases d) = None"
    using assms(3) by (simp add: find_None_iff)
  have id: "i_ID item = Param c ''id''"
    using assms(2) by (auto simp: First_item_def find_Some_iff split: option.splits)
  show ?thesis
    using assms(1,2,4,5,6) none id
    by (simp add: PurchaseItem_def First_purchase_def Create_purchase_def Update_purchased_def
        Let_def)
qed

text \<open>Alice, the owner of \<open>w1\<close>, purchases her own item \<open>i1\<close>.\<close>

theorem PurchaseItem_any_caller_witness:
  "w_UserID bike = ''alice'' \<and> i_WishlistID trek = w_ID bike
   \<and> fst (PurchaseItem {} ''p1'' ''t4'' (request ''id'' ''i1'' (Some ''alice'')) shared_DB) =
       JSON StatusOK (JObject [(''message'', JString ''Item marked as purchased'')])
   \<and> purchases (snd (PurchaseItem {} ''p1'' ''t4'' (request ''id'' ''i1'' (Some ''alice''))
       shared_DB)) =
       [\<lparr>p_ID = ''p1'', p_ItemID = ''i1'', p_UserID = ''alice'', p_PurchasedAt = ''t4''\<rparr>]
   \<and> items (snd (PurchaseItem {} ''p1'' ''t4'' (request ''id'' ''i1'' (Some ''alice''))
       shared_DB)) = [trek\<lparr>i_Purchased := True\<rparr>]"
proof -
  have "Get (request ''id'' ''i1'' (Some ''alice'')) ''userID'' = Some ''alice''"
    by (simp add: storage_defs example_defs)
  moreover have "First_item False shared_DB (Param (request ''id'' ''i1'' (Some ''alice'')) ''id'')
                   = Inr trek"
    by (simp add: storage_defs example_defs)
  moreover have "\<not> (\<exists>p \<in> set (purchases shared_DB).
                      p_ItemID p = Param (request ''id'' ''i1'' (Some ''alice'')) ''id''
                      \<and> p_UserID p = ''alice'')"
    by (simp add: example_defs)
  moreover have "''p1'' \<notin> set (map p_ID (purchases shared_DB))"
    by (simp add: example_defs)
  moreover have "1 \<notin> ({} :: nat set)" and "3 \<notin> ({} :: nat set)" and "4 \<notin> ({} :: nat set)"
    by simp_all
  ultimately have
    "fst (PurchaseItem {} ''p1'' ''t4'' (request ''id'' ''i1'' (Some ''alice'')) shared_DB) =
       JSON StatusOK (JObject [(''message'', JString ''Item marked as purchased'')])
     \<and> purchases (snd (PurchaseItem {} ''p1'' ''t4'' (request ''id'' ''i1'' (Some ''alice''))
         shared_DB)) =
         purchases shared_DB @
           [\<lparr>p_ID = ''p1'', p_ItemID = Param (request ''id'' ''i1'' (Some ''alice'')) ''id'',
             p_UserID = ''alice'', p_PurchasedAt = ''t4''\<rparr>]
     \<and> items (snd (PurchaseItem {} ''p1'' ''t4'' (request ''id'' ''i1'' (Some ''alice''))
         shared_DB)) =
         map (\<lambda>i. if i_ID i = Param (request ''id'' ''i1'' (Some ''alice'')) ''id''
                   then i\<lparr>i_Purchased := True\<rparr> else i) (items shared_DB)"
    using PurchaseItem_any_caller
      [of "request ''id'' ''i1'' (Some ''alice'')" "''alice''" shared_DB trek "''p1''" "{}" "''t4''"]
    by blast
  then show ?thesis
    by (simp add: storage_defs example_defs)
qed

text \<open>
  Claim C5. The claim is that the purchased flag of an item is true if and only if some
  Purchase refers to the item, and that PurchaseItem preserves this by inserting the
  Purchase and setting the flag. The code does not preserve it when the update of the flag
  is hit by a storage failure: the insert and the update are two separate storage calls,
  and the result of the update is the one result the controllers do not inspect. In
  \<open>shared_DB\<close> the item \<open>i1\<close> is unflagged and there is no purchase. Bob purchases
  \<open>i1\<close> while the update fails: the answer is 200, the Purchase row that refers to
  \<open>i1\<close> is kept, and the flag of \<open>i1\<close> is still false.
\<close>

theorem PurchaseItem_lost_flag_update:
  "items shared_DB = [trek] \<and> i_Purchased trek = False \<and> purchases shared_DB = []
   \<and> PurchaseItem {4} ''p1'' ''t4'' (request ''id'' ''i1'' (Some ''bob'')) shared_DB =
     (JSON StatusOK (JObject [(''message'', JString ''Item marked as purchased'')]),
      shared_DB\<lparr>purchases := [bobs]\<rparr>)
   \<and> items (shared_DB\<lparr>purchases := [bobs]\<rparr>) = [trek]
   \<and> p_ItemID bobs = i_ID trek"
  by (simp add: PurchaseItem_def storage_defs example_defs)

text \<open>
  Claim C10. Whenever PurchaseItem answers with an error (not authenticated, item not
  found, already purchased, or a storage failure up to and including the insert), the
  database is left as it was: no Purchase row is created and no item's purchased flag is
  changed. This holds for every pattern of storage failures.
\<close>

theorem PurchaseItem_error_unchanged:
  "status (fst (PurchaseItem outage uuid now c d)) \<noteq> StatusOK \<Longrightarrow>
     snd (PurchaseItem outage uuid now c d) = d"
  by (simp add: PurchaseItem_def Let_def split: option.splits sum.splits db_error.splits)

theorem PurchaseItem_error_unchanged_witness:
  "status (fst (PurchaseItem {} ''p2'' ''t5'' (request ''id'' ''i1'' (Some ''bob'')) bought_DB))
     = StatusBadRequest
   \<and> snd (PurchaseItem {} ''p2'' ''t5'' (request ''id'' ''i1'' (Some ''bob'')) bought_DB)
     = bought_DB"
proof -
  have h: "status (fst (PurchaseItem {} ''p2'' ''t5'' (request ''id'' ''i1'' (Some ''bob''))
             bought_DB)) = StatusBadRequest"
    by (simp add: PurchaseItem_def storage_defs example_defs)
  then have "status (fst (PurchaseItem {} ''p2'' ''t5'' (request ''id'' ''i1'' (Some ''bob''))
             bought_DB)) \<noteq> StatusOK"
    by simp
  from PurchaseItem_error_unchanged [OF this] h show ?thesis by simp
qed

end
